theory Spec2Isabelle
  imports Main "HOL-Library.AList"
begin

section \<open>Python values, failures and dictionaries\<close>

text \<open>
  The module \<^verbatim>\<open>pyOutlook/core/message.py\<close> defines the class \<^verbatim>\<open>Message\<close>. Every
  exception a method can raise is a value of \<open>error\<close>; a method that raises returns
  \<open>Inl\<close> of it, a method that returns gives \<open>Inr\<close>.

  \<^item> \<open>AuthError\<close>, \<open>MiscError\<close>: the two exception classes of
    \<^verbatim>\<open>pyOutlook.internal.errors\<close>.
  \<^item> \<open>KeyError k\<close>, \<open>IndexError\<close>, \<open>AttributeError\<close>, \<open>TypeError\<close>, \<open>ValueError\<close>:
    the built-in exceptions of Python. \<open>ValueError\<close> also stands for its subclass
    \<^verbatim>\<open>JSONDecodeError\<close>, which \<^verbatim>\<open>Response.json()\<close> raises on a body that is not JSON.
  \<^item> \<open>RequestException\<close>: what \<^verbatim>\<open>requests.post/delete/patch\<close> raise when no response
    arrives.
  \<^item> \<open>Unmodelled\<close>: returned by \<open>str_format\<close> below on a format string that uses a
    feature of \<^verbatim>\<open>str.format\<close> outside the modelled fragment. No format string of the
    module reaches it.
\<close>

datatype error =
    AuthError
  | MiscError
  | KeyError string
  | IndexError
  | AttributeError
  | TypeError
  | ValueError
  | RequestException
  | Unmodelled

definition bind_err :: "error + 'a \<Rightarrow> ('a \<Rightarrow> error + 'b) \<Rightarrow> error + 'b" where
  "bind_err r f = (case r of Inl e \<Rightarrow> Inl e | Inr x \<Rightarrow> f x)"

text \<open>
  A decoded JSON value, as \<^verbatim>\<open>json.loads\<close> gives it: \<^verbatim>\<open>None\<close>, a bool, a number, a
  \<^verbatim>\<open>str\<close>, a \<^verbatim>\<open>list\<close> or a \<^verbatim>\<open>dict\<close> with string keys. A dict is an association
  list read with \<open>map_of\<close>. Numbers are only passed through, never computed with.
\<close>

datatype json =
    JNull
  | JBool bool
  | JNum int
  | JStr string
  | JArr "json list"
  | JObj "(string \<times> json) list"

text \<open>\<^verbatim>\<open>d[k]\<close>: a missing key of a dict raises KeyError; a string key on any other JSON
  value raises TypeError (\<^verbatim>\<open>str\<close> and \<^verbatim>\<open>list\<close> indices must be integers, the others are
  not subscriptable).\<close>

definition dict_item :: "json \<Rightarrow> string \<Rightarrow> error + json" where
  "dict_item d k =
     (case d of
        JObj kvs \<Rightarrow> (case map_of kvs k of None \<Rightarrow> Inl (KeyError k) | Some v \<Rightarrow> Inr v)
      | _ \<Rightarrow> Inl TypeError)"

text \<open>\<^verbatim>\<open>d.get(k, default)\<close>: only a dict has the method; on any other JSON value the
  attribute lookup raises AttributeError.\<close>

definition dict_get :: "json \<Rightarrow> string \<Rightarrow> json \<Rightarrow> error + json" where
  "dict_get d k dflt =
     (case d of
        JObj kvs \<Rightarrow> Inr (case map_of kvs k of None \<Rightarrow> dflt | Some v \<Rightarrow> v)
      | _ \<Rightarrow> Inl AttributeError)"

text \<open>\<^verbatim>\<open>d.update(e)\<close> on insertion-ordered dicts: each key of \<open>e\<close>, in order, replaces
  the value of that key in \<open>d\<close> or is appended.\<close>

definition dict_update :: "('k \<times> 'v) list \<Rightarrow> ('k \<times> 'v) list \<Rightarrow> ('k \<times> 'v) list" where
  "dict_update d e = fold (\<lambda>(k, v). AList.update k v) e d"

section \<open>\<^verbatim>\<open>str.format\<close> with positional string arguments\<close>

text \<open>
  The module builds endpoints and one payload with \<^verbatim>\<open>template.format(arg)\<close>. The
  function \<open>str_format\<close> follows CPython's scanner for format strings, one character at
  a time:
  \<^item> in literal text, \<^verbatim>\<open>{{\<close> and \<^verbatim>\<open>}}\<close> stand for one brace, a single \<^verbatim>\<open>}\<close> raises
    ValueError, and a single \<^verbatim>\<open>{\<close> opens a replacement field;
  \<^item> the field name runs to the first \<^verbatim>\<open>}\<close> or \<^verbatim>\<open>:\<close>; a \<^verbatim>\<open>{\<close> inside it raises
    ValueError;
  \<^item> after \<^verbatim>\<open>:\<close> the format specification runs to the brace that closes the field,
    nested braces counted;
  \<^item> the end of the string inside a field raises ValueError;
  \<^item> a field with an empty name takes the next positional argument (IndexError when
    there is none left); a name that is not a number is looked up among the keyword
    arguments, of which the module passes none: KeyError with that name, raised before
    the format specification is looked at.

  Outside the fragment (\<open>Unmodelled\<close>): a conversion \<^verbatim>\<open>!r\<close>, an index \<^verbatim>\<open>[..]\<close>, an
  explicit argument number, and an attribute or a non-empty format specification applied
  to a positional argument.
\<close>

datatype fmt_mode = Text | Field string | Spec string string nat

definition is_digit :: "char \<Rightarrow> bool" where
  "is_digit c = (48 \<le> (of_char c :: nat) \<and> (of_char c :: nat) \<le> 57)"

definition get_field :: "string \<Rightarrow> string \<Rightarrow> string list \<Rightarrow> error + (string \<times> string list)" where
  "get_field name spec args =
     (let first = takeWhile (\<lambda>c. c \<noteq> CHR ''.'') name in
      if first = [] then
        (case args of
           [] \<Rightarrow> Inl IndexError
         | a # rest \<Rightarrow> if name = [] \<and> spec = [] then Inr (a, rest) else Inl Unmodelled)
      else if list_all is_digit first then Inl Unmodelled
      else Inl (KeyError first))"

fun fmt :: "fmt_mode \<Rightarrow> string list \<Rightarrow> string \<Rightarrow> string \<Rightarrow> error + string" where
  "fmt Text args out [] = Inr out"
| "fmt (Field n) args out [] = Inl ValueError"
| "fmt (Spec n sp d) args out [] = Inl ValueError"
| "fmt Text args out (c # cs) =
     (if c = CHR ''{'' then
        (case cs of
           [] \<Rightarrow> Inl ValueError
         | c' # cs' \<Rightarrow>
             if c' = CHR ''{'' then fmt Text args (out @ [c]) cs'
             else fmt (Field []) args out cs)
      else if c = CHR ''}'' then
        (case cs of
           [] \<Rightarrow> Inl ValueError
         | c' # cs' \<Rightarrow>
             if c' = CHR ''}'' then fmt Text args (out @ [c]) cs'
             else Inl ValueError)
      else fmt Text args (out @ [c]) cs)"
| "fmt (Field n) args out (c # cs) =
     (if c = CHR ''{'' then Inl ValueError
      else if c = CHR ''['' \<or> c = CHR ''!'' then Inl Unmodelled
      else if c = CHR ''}'' then
        (case get_field n [] args of
           Inl e \<Rightarrow> Inl e
         | Inr (s, args') \<Rightarrow> fmt Text args' (out @ s) cs)
      else if c = CHR '':'' then fmt (Spec n [] 1) args out cs
      else fmt (Field (n @ [c])) args out cs)"
| "fmt (Spec n sp d) args out (c # cs) =
     (if c = CHR ''{'' then fmt (Spec n (sp @ [c]) (Suc d)) args out cs
      else if c = CHR ''}'' then
        (if d = 1 then
           (case get_field n sp args of
              Inl e \<Rightarrow> Inl e
            | Inr (s, args') \<Rightarrow> fmt Text args' (out @ s) cs)
         else fmt (Spec n (sp @ [c]) (d - 1)) args out cs)
      else fmt (Spec n (sp @ [c]) d) args out cs)"

definition str_format :: "string \<Rightarrow> string list \<Rightarrow> error + string" where
  "str_format template args = fmt Text args [] template"

section \<open>The Message class\<close>

text \<open>
  The account object is not part of the module; a Message reads one attribute of it,
  the bearer token \<^verbatim>\<open>account.access_token\<close>, a \<^verbatim>\<open>str\<close>.
\<close>

record outlook_account =
  access_token :: string

text \<open>
  The attributes that \<^verbatim>\<open>Message.__init__\<close> sets, \<open>is_read\<close> being the private
  \<^verbatim>\<open>__is_read\<close> that the property of that name returns. Python checks no annotation, so
  the record leaves the types of the values open: \<open>'s\<close> for the attributes annotated
  \<^verbatim>\<open>str\<close>, \<open>'r\<close> for \<open>to_recipients\<close>, \<open>'b\<close> for the read state. The factory stores
  JSON values as it finds them; the action methods concatenate \<open>message_id\<close> into a URL
  and are modelled on a \<^verbatim>\<open>str\<close> identifier.
\<close>

record ('s, 'r, 'b) message =
  account :: outlook_account
  message_id :: 's
  body :: 's
  subject :: 's
  sender_email :: 's
  sender_name :: 's
  to_recipients :: 'r
  is_read :: 'b

definition Message ::
  "outlook_account \<Rightarrow> 's \<Rightarrow> 's \<Rightarrow> 's \<Rightarrow> 's \<Rightarrow> 's \<Rightarrow> 'r \<Rightarrow> 'b \<Rightarrow> ('s, 'r, 'b) message" where
  "Message acct mid bdy subj s_email s_name to_rcpts rd =
     \<lparr>account = acct, message_id = mid, body = bdy, subject = subj,
      sender_email = s_email, sender_name = s_name, to_recipients = to_rcpts,
      is_read = rd\<rparr>"

subsection \<open>The factories\<close>

text \<open>\<^verbatim>\<open>Message._json_to_message(account, api_json)\<close>, statement by statement. The two
  subscripts raise KeyError on a missing key; each \<^verbatim>\<open>.get\<close> takes its default on a
  missing key and raises AttributeError when called on a value that is not a dict.\<close>

definition json_to_message :: "outlook_account \<Rightarrow> json \<Rightarrow> error + (json, json, json) message" where
  "json_to_message acct api_json =
     bind_err (dict_item api_json ''Id'') (\<lambda>uid.
     bind_err (dict_get api_json ''Subject'' (JStr [])) (\<lambda>subj.
     bind_err (dict_get api_json ''Sender'' (JObj [])) (\<lambda>sender_obj.
     bind_err (dict_get sender_obj ''EmailAddress'' (JObj [])) (\<lambda>sender.
     bind_err (dict_get sender ''Address'' (JStr [])) (\<lambda>s_email.
     bind_err (dict_get sender ''Name'' (JStr [])) (\<lambda>s_name.
     bind_err (dict_get api_json ''Body'' (JObj [])) (\<lambda>body_obj.
     bind_err (dict_get body_obj ''Content'' (JStr [])) (\<lambda>bdy.
     bind_err (dict_get api_json ''ToRecipients'' (JArr [])) (\<lambda>to_rcpts.
     bind_err (dict_item api_json ''IsRead'') (\<lambda>rd.
     Inr (Message acct uid bdy subj s_email s_name to_rcpts rd)))))))))))"

text \<open>A list comprehension: the elements in order, stopping at the first that raises.\<close>

fun comprehension :: "('a \<Rightarrow> error + 'b) \<Rightarrow> 'a list \<Rightarrow> error + 'b list" where
  "comprehension f [] = Inr []"
| "comprehension f (x # xs) =
     bind_err (f x) (\<lambda>y. bind_err (comprehension f xs) (\<lambda>ys. Inr (y # ys)))"

text \<open>What \<^verbatim>\<open>for message in v\<close> iterates over: the elements of a list, the keys of a
  dict, the characters of a \<^verbatim>\<open>str\<close>; any other JSON value is not iterable (TypeError).\<close>

definition iterate :: "json \<Rightarrow> error + json list" where
  "iterate v =
     (case v of
        JArr xs \<Rightarrow> Inr xs
      | JObj kvs \<Rightarrow> Inr (map (\<lambda>kv. JStr (fst kv)) kvs)
      | JStr s \<Rightarrow> Inr (map (\<lambda>c. JStr [c]) s)
      | _ \<Rightarrow> Inl TypeError)"

definition json_to_messages ::
  "outlook_account \<Rightarrow> json \<Rightarrow> error + (json, json, json) message list" where
  "json_to_messages acct json_value =
     bind_err (dict_item json_value ''value'') (\<lambda>v.
     bind_err (iterate v) (\<lambda>entries.
     comprehension (json_to_message acct) entries))"

section \<open>The transport and the API call gateway\<close>

text \<open>
  One call of \<^verbatim>\<open>requests.post\<close>, \<^verbatim>\<open>requests.delete\<close> or \<^verbatim>\<open>requests.patch\<close>: which
  of the three (\<open>verb\<close>), the URL, the headers dict and the \<^verbatim>\<open>data\<close> argument (\<open>None\<close>
  where none is passed). Of the response the gateway reads \<^verbatim>\<open>status_code\<close>,
  \<^verbatim>\<open>json()\<close> and \<^verbatim>\<open>content\<close>; \<open>json_body = None\<close> is a body that does not decode, on
  which \<^verbatim>\<open>json()\<close> raises. The transport is any function from requests to responses
  or failures.
\<close>

record request =
  verb :: string
  url :: string
  headers :: "(string \<times> string) list"
  data :: "string option"

record response =
  status_code :: int
  json_body :: "json option"
  content :: string

type_synonym transport = "request \<Rightarrow> error + response"

text \<open>
  What a method does to the outside, in the order it happens: requests handed to the
  transport and warnings given to \<^verbatim>\<open>warnings.warn\<close> (category and message). A method
  runs on the Message it is called on and the events so far, and returns its outcome
  with both as it leaves them. The texts written to the logger are not modelled; the
  arguments of a logging call are, where computing them can raise.
\<close>

datatype event = Sent request | Warned string string

record ('s, 'r, 'b) world =
  self :: "('s, 'r, 'b) message"
  trace :: "event list"

text \<open>\<^verbatim>\<open>Message._make_api_call(http_type, endpoint, extra_headers, data)\<close>. The last
  branch of the verb dispatch is \<^verbatim>\<open>raise NotImplemented\<close>: \<^verbatim>\<open>NotImplemented\<close> is the
  constant of rich comparisons and no exception, so the statement raises TypeError
  (exceptions must derive from BaseException). Both error branches evaluate
  \<^verbatim>\<open>r.json()\<close> for the log line before their \<^verbatim>\<open>raise\<close>.\<close>

definition make_api_call ::
  "transport \<Rightarrow> string \<Rightarrow> string \<Rightarrow> (string \<times> string) list option \<Rightarrow> string option \<Rightarrow>
   (string, 'r, 'b) world \<Rightarrow> (error + unit) \<times> (string, 'r, 'b) world" where
  "make_api_call transport http_type endpoint extra_headers dat w =
     (let hdrs = [(''Authorization'', ''Bearer '' @ access_token (account (self w))),
                  (''Content-Type'', ''application/json'')];
          hdrs = (case extra_headers of None \<Rightarrow> hdrs | Some extra \<Rightarrow> dict_update hdrs extra);
          call =
            (if http_type = ''post'' then
               Inr \<lparr>verb = ''post'', url = endpoint, headers = hdrs, data = dat\<rparr>
             else if http_type = ''delete'' then
               Inr \<lparr>verb = ''delete'', url = endpoint, headers = hdrs, data = None\<rparr>
             else if http_type = ''patch'' then
               Inr \<lparr>verb = ''patch'', url = endpoint, headers = hdrs, data = dat\<rparr>
             else Inl TypeError)
      in case call of
           Inl e \<Rightarrow> (Inl e, w)
         | Inr req \<Rightarrow>
             (let w' = w\<lparr>trace := trace w @ [Sent req]\<rparr> in
              case transport req of
                Inl e \<Rightarrow> (Inl e, w')
              | Inr r \<Rightarrow>
                  if status_code r = 401 then
                    (case json_body r of
                       None \<Rightarrow> (Inl ValueError, w')
                     | Some j \<Rightarrow> (Inl AuthError, w'))
                  else if status_code r > 299 then
                    (case json_body r of
                       None \<Rightarrow> (Inl ValueError, w')
                     | Some j \<Rightarrow> (Inl MiscError, w'))
                  else (Inr (), w')))"

section \<open>The action methods\<close>

text \<open>
  Each method takes the transport and runs on a world. The endpoints are built as the
  source builds them: by concatenation in \<^verbatim>\<open>reply\<close>, \<^verbatim>\<open>delete\<close>, \<^verbatim>\<open>_move_to\<close> and
  \<^verbatim>\<open>_copy_to\<close>, by \<^verbatim>\<open>str.format\<close> in \<^verbatim>\<open>forward_message\<close>, \<^verbatim>\<open>reply_all\<close> and the
  setter of \<^verbatim>\<open>is_read\<close>. The methods \<^verbatim>\<open>_move_to\<close> and \<^verbatim>\<open>_copy_to\<close> are
  \<open>private_move_to\<close> and \<open>private_copy_to\<close> here, \<^verbatim>\<open>_make_api_call\<close> is
  \<open>make_api_call\<close>.
\<close>

text \<open>\<^verbatim>\<open>forward_message(to_recipients, forward_comment=None)\<close>. The recipients are
  serialised by \<^verbatim>\<open>jsonify_recipients(to_recipients, 'to', True)\<close> of
  \<^verbatim>\<open>pyOutlook.internal.utils\<close>, which is not part of the module: the method takes it as
  the parameter \<open>jsonify\<close>, a function that returns the serialised text or raises. The
  comment is a \<^verbatim>\<open>str\<close>, on which \<^verbatim>\<open>str()\<close> is the identity.\<close>

definition forward_message ::
  "('a \<Rightarrow> string \<Rightarrow> bool \<Rightarrow> error + string) \<Rightarrow> transport \<Rightarrow> 'a option \<Rightarrow> string option \<Rightarrow>
   (string, 'r, 'b) world \<Rightarrow> (error + unit) \<times> (string, 'r, 'b) world" where
  \<open>forward_message jsonify transport to_rcpts forward_comment w =
     (let payload = ''{'';
          payload = (case forward_comment of
                       None \<Rightarrow> payload
                     | Some c \<Rightarrow> payload @ ''"Comment" : "'' @ c @ ''",'')
      in case to_rcpts of
           None \<Rightarrow> (Inl MiscError, w)
         | Some rcpts \<Rightarrow>
             (case jsonify rcpts ''to'' True of
                Inl e \<Rightarrow> (Inl e, w)
              | Inr js \<Rightarrow>
                  (let payload = payload @ ''"ToRecipients" : ['' @ js @ '']}'' in
                   case str_format ''https://outlook.office.com/api/v2.0/me/messages/{}/forward''
                          [message_id (self w)] of
                     Inl e \<Rightarrow> (Inl e, w)
                   | Inr endpoint \<Rightarrow>
                       make_api_call transport ''post'' endpoint None (Some payload) w)))\<close>

definition reply ::
  "transport \<Rightarrow> string \<Rightarrow> (string, 'r, 'b) world \<Rightarrow> (error + unit) \<times> (string, 'r, 'b) world" where
  \<open>reply transport reply_comment w =
     (let payload = ''{ "Comment": "'' @ reply_comment @ ''"}'';
          endpoint = ''https://outlook.office.com/api/v2.0/me/messages/'' @ message_id (self w)
                     @ ''/reply''
      in make_api_call transport ''post'' endpoint None (Some payload) w)\<close>

definition reply_all ::
  "transport \<Rightarrow> string \<Rightarrow> (string, 'r, 'b) world \<Rightarrow> (error + unit) \<times> (string, 'r, 'b) world" where
  \<open>reply_all transport reply_comment w =
     (let payload = ''{ "Comment": "'' @ reply_comment @ ''"}'' in
      case str_format ''https://outlook.office.com/api/v2.0/me/messages/{}/replyall''
             [message_id (self w)] of
        Inl e \<Rightarrow> (Inl e, w)
      | Inr endpoint \<Rightarrow> make_api_call transport ''post'' endpoint None (Some payload) w)\<close>

definition delete ::
  "transport \<Rightarrow> (string, 'r, 'b) world \<Rightarrow> (error + unit) \<times> (string, 'r, 'b) world" where
  "delete transport w =
     (let endpoint = ''https://outlook.office.com/api/v2.0/me/messages/'' @ message_id (self w)
      in make_api_call transport ''delete'' endpoint None None w)"

text \<open>\<^verbatim>\<open>warnings.warn(message, DeprecationWarning)\<close> hands the warning to the warnings
  machinery and returns (the default filters; a filter that turns warnings into errors
  is configuration of the caller's process).\<close>

definition delete_message ::
  "transport \<Rightarrow> (string, 'r, 'b) world \<Rightarrow> (error + unit) \<times> (string, 'r, 'b) world" where
  "delete_message transport w =
     delete transport
       (w\<lparr>trace := trace w @
            [Warned ''DeprecationWarning''
               ''delete_message() is deprecated and will be removed in v1.0. Use delete() instead.'']\<rparr>)"

definition private_move_to ::
  "transport \<Rightarrow> string \<Rightarrow> (string, 'r, 'b) world \<Rightarrow> (error + unit) \<times> (string, 'r, 'b) world" where
  \<open>private_move_to transport destination w =
     (let endpoint = ''https://outlook.office.com/api/v2.0/me/messages/'' @ message_id (self w)
                     @ ''/move'';
          payload = ''{ "DestinationId": "'' @ destination @ ''"}''
      in make_api_call transport ''post'' endpoint None (Some payload) w)\<close>

definition move_to_inbox ::
  "transport \<Rightarrow> (string, 'r, 'b) world \<Rightarrow> (error + unit) \<times> (string, 'r, 'b) world" where
  "move_to_inbox transport w = private_move_to transport ''Inbox'' w"

definition move_to_deleted ::
  "transport \<Rightarrow> (string, 'r, 'b) world \<Rightarrow> (error + unit) \<times> (string, 'r, 'b) world" where
  "move_to_deleted transport w = private_move_to transport ''DeletedItems'' w"

definition move_to_drafts ::
  "transport \<Rightarrow> (string, 'r, 'b) world \<Rightarrow> (error + unit) \<times> (string, 'r, 'b) world" where
  "move_to_drafts transport w = private_move_to transport ''Drafts'' w"

definition move_to ::
  "transport \<Rightarrow> string \<Rightarrow> (string, 'r, 'b) world \<Rightarrow> (error + unit) \<times> (string, 'r, 'b) world" where
  "move_to transport folder_id w = private_move_to transport folder_id w"

text \<open>\<^verbatim>\<open>_copy_to\<close> builds its payload with
  \<^verbatim>\<open>'{ "DestinationId": "{}"}'.format(destination)\<close>: the braces of the JSON object are
  not doubled, so the first brace opens a replacement field.\<close>

definition private_copy_to ::
  "transport \<Rightarrow> string \<Rightarrow> (string, 'r, 'b) world \<Rightarrow> (error + unit) \<times> (string, 'r, 'b) world" where
  \<open>private_copy_to transport destination w =
     (let token = access_token (account (self w));
          hdrs = [(''Authorization'', ''Bearer '' @ token),
                  (''Content-Type'', ''application/json'')];
          endpoint = ''https://outlook.office.com/api/v2.0/me/messages/'' @ message_id (self w)
                     @ ''/copy''
      in case str_format ''{ "DestinationId": "{}"}'' [destination] of
           Inl e \<Rightarrow> (Inl e, w)
         | Inr payload \<Rightarrow>
             make_api_call transport ''post'' endpoint (Some hdrs) (Some payload) w)\<close>

definition copy_to_inbox ::
  "transport \<Rightarrow> (string, 'r, 'b) world \<Rightarrow> (error + unit) \<times> (string, 'r, 'b) world" where
  "copy_to_inbox transport w = private_copy_to transport ''Inbox'' w"

definition copy_to_deleted ::
  "transport \<Rightarrow> (string, 'r, 'b) world \<Rightarrow> (error + unit) \<times> (string, 'r, 'b) world" where
  "copy_to_deleted transport w = private_copy_to transport ''DeletedItems'' w"

definition copy_to_drafts ::
  "transport \<Rightarrow> (string, 'r, 'b) world \<Rightarrow> (error + unit) \<times> (string, 'r, 'b) world" where
  "copy_to_drafts transport w = private_copy_to transport ''Drafts'' w"

definition copy_to ::
  "transport \<Rightarrow> string \<Rightarrow> (string, 'r, 'b) world \<Rightarrow> (error + unit) \<times> (string, 'r, 'b) world" where
  "copy_to transport folder_id w = private_copy_to transport folder_id w"

text \<open>The setter of the property \<^verbatim>\<open>is_read\<close>, for a bool: \<^verbatim>\<open>json.dumps\<close> of the dict
  \<^verbatim>\<open>{'IsRead': boolean}\<close> is the text below. The assignment to \<^verbatim>\<open>__is_read\<close> is the
  statement after the call, reached only when the call returns.\<close>

definition json_dumps_IsRead :: "bool \<Rightarrow> string" where
  \<open>json_dumps_IsRead boolean = ''{"IsRead": '' @ (if boolean then ''true'' else ''false'') @ ''}''\<close>

definition is_read_setter ::
  "transport \<Rightarrow> bool \<Rightarrow> (string, 'r, bool) world \<Rightarrow> (error + unit) \<times> (string, 'r, bool) world" where
  "is_read_setter transport boolean w =
     (case str_format ''https://outlook.office.com/api/v2.0/me/messages/{}'' [message_id (self w)] of
        Inl e \<Rightarrow> (Inl e, w)
      | Inr endpoint \<Rightarrow>
          (case make_api_call transport ''patch'' endpoint None (Some (json_dumps_IsRead boolean)) w of
             (Inl e, w') \<Rightarrow> (Inl e, w')
           | (Inr u, w') \<Rightarrow> (Inr (), w'\<lparr>self := (self w')\<lparr>is_read := boolean\<rparr>\<rparr>)))"

section \<open>The recipient serialiser\<close>

text \<open>
  Modelled from the spec: \<^verbatim>\<open>jsonify_recipients\<close> of \<^verbatim>\<open>pyOutlook.internal.utils\<close>, which
  \<^verbatim>\<open>forward_message\<close> imports and which is not among the sources. The specification
  says of the recipients of a forward:
  \<^item> they must be non-empty, a string or a sequence of address descriptors, and failing
    this raises the generic-operation failure before any network call;
  \<^item> both a single string and a sequence of strings or of structured recipients
    serialise to a JSON array of \<^verbatim>\<open>{EmailAddress: {Address: <addr>}}\<close> objects, and a
    comma-separated string is split and trimmed into individual addresses.

  \<^verbatim>\<open>forward_message\<close> itself tests its recipients against \<^verbatim>\<open>None\<close> only and hands
  every other value to the serialiser, so the serialiser is where empty recipients are
  refused: on the empty string and on the empty sequence it raises MiscError. On any
  other input it returns the elements of the array, separated by commas;
  \<^verbatim>\<open>forward_message\<close> puts the brackets around them.
\<close>

datatype recipient = Address string | Contact string string

datatype recipients = AddressString string | AddressList "recipient list"

fun split_commas :: "string \<Rightarrow> string list" where
  "split_commas [] = [[]]"
| "split_commas (c # cs) =
     (if c = CHR '','' then [] # split_commas cs
      else (case split_commas cs of [] \<Rightarrow> [[c]] | x # xs \<Rightarrow> (c # x) # xs))"

definition is_space :: "char \<Rightarrow> bool" where
  "is_space c = (c = CHR '' '' \<or> c = CHR 0x09 \<or> c = CHR 0x0A \<or> c = CHR 0x0D)"

definition strip :: "string \<Rightarrow> string" where
  "strip s = rev (dropWhile is_space (rev (dropWhile is_space s)))"

fun address_of :: "recipient \<Rightarrow> string" where
  "address_of (Address a) = a"
| "address_of (Contact n a) = a"

definition addresses :: "recipients \<Rightarrow> string list" where
  "addresses r =
     (case r of
        AddressString s \<Rightarrow> map strip (split_commas s)
      | AddressList xs \<Rightarrow> map address_of xs)"

definition email_address_json :: "string \<Rightarrow> string" where
  \<open>email_address_json a = ''{"EmailAddress": {"Address": "'' @ a @ ''"}}''\<close>

fun join_commas :: "string list \<Rightarrow> string" where
  "join_commas [] = []"
| "join_commas [x] = x"
| "join_commas (x # y # ys) = x @ '','' @ join_commas (y # ys)"

definition empty_recipients :: "recipients \<Rightarrow> bool" where
  "empty_recipients r = (case r of AddressString s \<Rightarrow> s = [] | AddressList xs \<Rightarrow> xs = [])"

definition jsonify_recipients :: "recipients \<Rightarrow> string \<Rightarrow> bool \<Rightarrow> error + string" where
  "jsonify_recipients rcpts r_type silent =
     (if empty_recipients rcpts then Inl MiscError
      else Inr (join_commas (map email_address_json (addresses rcpts))))"

section \<open>JSON texts: the wire format of the specification\<close>

text \<open>
  The specification calls a request body the JSON encoding of an object with one string
  member. \<open>json_loads_single key text\<close> reads \<open>text\<close> as JSON does: white space, \<^verbatim>\<open>{\<close>,
  the member name as a JSON string, \<^verbatim>\<open>:\<close>, the value as a JSON string, \<^verbatim>\<open>}\<close>, white
  space. It returns the code points of the value when \<open>text\<close> is such a document and
  the member is named \<open>key\<close>, and \<open>None\<close> otherwise. Inside a JSON string a double quote
  ends it, a backslash starts an escape (\<^verbatim>\<open>\uXXXX\<close> among them, two of which may form a
  surrogate pair) and a control character is not allowed.
\<close>

definition hex_value :: "char \<Rightarrow> nat option" where
  "hex_value c =
     (let n = (of_char c :: nat) in
      if 48 \<le> n \<and> n \<le> 57 then Some (n - 48)
      else if 65 \<le> n \<and> n \<le> 70 then Some (n - 55)
      else if 97 \<le> n \<and> n \<le> 102 then Some (n - 87)
      else None)"

definition hex4 :: "char \<Rightarrow> char \<Rightarrow> char \<Rightarrow> char \<Rightarrow> nat option" where
  "hex4 a b c d =
     (case (hex_value a, hex_value b, hex_value c, hex_value d) of
        (Some p, Some q, Some r, Some s) \<Rightarrow> Some (((p * 16 + q) * 16 + r) * 16 + s)
      | _ \<Rightarrow> None)"

definition unescape :: "char \<Rightarrow> nat option" where
  "unescape e =
     (if e = CHR 0x22 then Some 34
      else if e = CHR 0x5C then Some 92
      else if e = CHR ''/'' then Some 47
      else if e = CHR ''b'' then Some 8
      else if e = CHR ''f'' then Some 12
      else if e = CHR ''n'' then Some 10
      else if e = CHR ''r'' then Some 13
      else if e = CHR ''t'' then Some 9
      else None)"

definition prepend :: "nat \<Rightarrow> (nat list \<times> string) option \<Rightarrow> (nat list \<times> string) option" where
  "prepend n r = (case r of None \<Rightarrow> None | Some (ns, rest) \<Rightarrow> Some (n # ns, rest))"

fun json_string_tail :: "string \<Rightarrow> (nat list \<times> string) option" where
  "json_string_tail [] = None"
| "json_string_tail (c # cs) =
     (if c = CHR 0x22 then Some ([], cs)
      else if c = CHR 0x5C then
        (case cs of
           [] \<Rightarrow> None
         | e # cs' \<Rightarrow>
             if e = CHR ''u'' then
               (if length cs' < 4 then None
                else
                  (case hex4 (cs' ! 0) (cs' ! 1) (cs' ! 2) (cs' ! 3) of
                     None \<Rightarrow> None
                   | Some n \<Rightarrow> prepend n (json_string_tail (drop 4 cs'))))
             else
               (case unescape e of
                  None \<Rightarrow> None
                | Some n \<Rightarrow> prepend n (json_string_tail cs')))
      else if (of_char c :: nat) < 32 then None
      else prepend (of_char c) (json_string_tail cs))"

fun combine_surrogates :: "nat list \<Rightarrow> nat list" where
  "combine_surrogates (a # b # ns) =
     (if 55296 \<le> a \<and> a < 56320 \<and> 56320 \<le> b \<and> b < 57344
      then (65536 + (a - 55296) * 1024 + (b - 56320)) # combine_surrogates ns
      else a # combine_surrogates (b # ns))"
| "combine_surrogates ns = ns"

definition json_string :: "string \<Rightarrow> (nat list \<times> string) option" where
  "json_string s =
     (case s of
        [] \<Rightarrow> None
      | c # cs \<Rightarrow>
          if c = CHR 0x22 then
            (case json_string_tail cs of
               None \<Rightarrow> None
             | Some (ns, rest) \<Rightarrow> Some (combine_surrogates ns, rest))
          else None)"

definition skip_ws :: "string \<Rightarrow> string" where
  "skip_ws s = dropWhile is_space s"

definition expect :: "char \<Rightarrow> string \<Rightarrow> string option" where
  "expect c s = (case skip_ws s of [] \<Rightarrow> None | d # rest \<Rightarrow> if d = c then Some rest else None)"

definition json_loads_single :: "string \<Rightarrow> string \<Rightarrow> nat list option" where
  "json_loads_single key text =
     (case expect (CHR ''{'') text of
        None \<Rightarrow> None
      | Some s1 \<Rightarrow>
          (case json_string (skip_ws s1) of
             None \<Rightarrow> None
           | Some (k, s2) \<Rightarrow>
               if k = map of_char key then
                 (case expect (CHR '':'') s2 of
                    None \<Rightarrow> None
                  | Some s3 \<Rightarrow>
                      (case json_string (skip_ws s3) of
                         None \<Rightarrow> None
                       | Some (v, s4) \<Rightarrow>
                           (case expect (CHR ''}'') s4 of
                              None \<Rightarrow> None
                            | Some s5 \<Rightarrow> if skip_ws s5 = [] then Some v else None)))
               else None))"

text \<open>A comment that the concatenation of \<^verbatim>\<open>reply\<close> leaves intact: no double quote, no
  backslash, no control character.\<close>

definition plain :: "string \<Rightarrow> bool" where
  "plain s = list_all (\<lambda>c. c \<noteq> CHR 0x22 \<and> c \<noteq> CHR 0x5C \<and> 32 \<le> (of_char c :: nat)) s"

section \<open>Reading raw message objects\<close>

text \<open>
  The specification names the optional fields of a raw message object by dotted paths
  (\<^verbatim>\<open>Body.Content\<close>, \<^verbatim>\<open>Sender.EmailAddress.Address\<close>). \<open>dotted dflt path v\<close> follows a
  path through nested objects and gives \<open>dflt\<close> where a member is missing.
  \<open>nested_objects obj\<close> holds when \<^verbatim>\<open>Sender\<close>, \<^verbatim>\<open>Sender.EmailAddress\<close> and \<^verbatim>\<open>Body\<close>, where
  present, are JSON objects.
\<close>

fun dotted :: "json \<Rightarrow> string list \<Rightarrow> json \<Rightarrow> json" where
  "dotted dflt [] v = v"
| "dotted dflt (k # ks) v =
     (case v of
        JObj kvs \<Rightarrow> (case map_of kvs k of None \<Rightarrow> dflt | Some v' \<Rightarrow> dotted dflt ks v')
      | _ \<Rightarrow> dflt)"

definition is_object :: "json \<Rightarrow> bool" where
  "is_object v = (case v of JObj kvs \<Rightarrow> True | _ \<Rightarrow> False)"

definition nested_objects :: "(string \<times> json) list \<Rightarrow> bool" where
  "nested_objects obj =
     ((case map_of obj ''Sender'' of
         None \<Rightarrow> True
       | Some s \<Rightarrow>
           (case s of
              JObj kvs \<Rightarrow> (case map_of kvs ''EmailAddress'' of None \<Rightarrow> True | Some e \<Rightarrow> is_object e)
            | _ \<Rightarrow> False))
      \<and> (case map_of obj ''Body'' of None \<Rightarrow> True | Some b \<Rightarrow> is_object b))"

section \<open>Sample data\<close>

definition respond_with :: "response \<Rightarrow> transport" where
  "respond_with r req = Inr r"

definition ok_response :: response where
  "ok_response = \<lparr>status_code = 200, json_body = None, content = []\<rparr>"

definition unauthorized_response :: response where
  "unauthorized_response = \<lparr>status_code = 401, json_body = None, content = []\<rparr>"

definition unauthorized_json_response :: response where
  "unauthorized_json_response = \<lparr>status_code = 401, json_body = Some (JObj []), content = ''{}''\<rparr>"

definition fail_with :: "error \<Rightarrow> transport" where
  "fail_with e req = Inl e"

definition sample_account :: outlook_account where
  "sample_account = \<lparr>access_token = ''token''\<rparr>"

definition sample_world :: "(string, json, bool) world" where
  "sample_world =
     \<lparr>self = Message sample_account ''AAA'' ''Hello'' ''Greeting'' ''jane@domain.com'' ''Jane''
               (JArr []) False,
      trace = []\<rparr>"

definition sample_batch :: json where
  "sample_batch =
     JObj [(''value'',
            JArr [JObj [(''Id'', JStr ''AAA''), (''IsRead'', JBool False)],
                  JObj [(''Id'', JStr ''BBB''), (''Subject'', JStr ''Hi''), (''IsRead'', JBool True)]])]"

section \<open>Format strings of the module\<close>

lemma format_forward_endpoint:
  "str_format ''https://outlook.office.com/api/v2.0/me/messages/{}/forward'' [a] =
   Inr (''https://outlook.office.com/api/v2.0/me/messages/'' @ a @ ''/forward'')"
  by (simp add: str_format_def get_field_def)

lemma format_replyall_endpoint:
  "str_format ''https://outlook.office.com/api/v2.0/me/messages/{}/replyall'' [a] =
   Inr (''https://outlook.office.com/api/v2.0/me/messages/'' @ a @ ''/replyall'')"
  by (simp add: str_format_def get_field_def)

lemma format_message_endpoint:
  "str_format ''https://outlook.office.com/api/v2.0/me/messages/{}'' [a] =
   Inr (''https://outlook.office.com/api/v2.0/me/messages/'' @ a)"
  by (simp add: str_format_def get_field_def)

text \<open>The payload template of \<^verbatim>\<open>_copy_to\<close>: the field opened by the first brace is named
  \<^verbatim>\<open> "DestinationId"\<close> (with the blank and the quotes), which is no positional
  argument.\<close>

lemma format_copy_payload:
  \<open>str_format ''{ "DestinationId": "{}"}'' [d] = Inl (KeyError '' "DestinationId"'')\<close>
  by (simp add: str_format_def get_field_def is_digit_def)

section \<open>The gateway, verb by verb\<close>

lemma make_api_call_unknown_verb:
  assumes "h \<noteq> ''post''" "h \<noteq> ''delete''" "h \<noteq> ''patch''"
  shows "make_api_call tr h ep x d w = (Inl TypeError, w)"
  unfolding make_api_call_def Let_def
  by (simp only: assms if_False sum.case)

lemma make_api_call_delete_self: "self (snd (make_api_call tr ''delete'' ep x d w)) = self w"
  by (simp add: make_api_call_def Let_def split: sum.split option.split)

lemma make_api_call_patch_self: "self (snd (make_api_call tr ''patch'' ep x d w)) = self w"
  by (simp add: make_api_call_def Let_def split: sum.split option.split)

lemma make_api_call_post_self: "self (snd (make_api_call tr ''post'' ep x d w)) = self w"
  by (simp add: make_api_call_def Let_def split: sum.split option.split)

lemma make_api_call_post_trace:
  "trace (snd (make_api_call tr ''post'' ep None d w)) =
   trace w @ [Sent \<lparr>verb = ''post'', url = ep,
      headers = [(''Authorization'', ''Bearer '' @ access_token (account (self w))),
                 (''Content-Type'', ''application/json'')], data = d\<rparr>]"
  by (simp add: make_api_call_def Let_def split: sum.split option.split)

text \<open>The outcome of a call that reaches the transport: a transport failure is passed
  on; 401 and the other statuses above 299 raise AuthError and MiscError when the body of
  the response decodes, and the decoding error when it does not; any other status
  returns.\<close>

lemma make_api_call_post_outcome:
  "fst (make_api_call tr ''post'' ep None d w) =
   (case tr \<lparr>verb = ''post'', url = ep,
      headers = [(''Authorization'', ''Bearer '' @ access_token (account (self w))),
                 (''Content-Type'', ''application/json'')], data = d\<rparr> of
      Inl e \<Rightarrow> Inl e
    | Inr r \<Rightarrow>
        if status_code r = 401 then
          (case json_body r of None \<Rightarrow> Inl ValueError | Some j \<Rightarrow> Inl AuthError)
        else if status_code r > 299 then
          (case json_body r of None \<Rightarrow> Inl ValueError | Some j \<Rightarrow> Inl MiscError)
        else Inr ())"
  by (simp add: make_api_call_def Let_def split: sum.split option.split)

section \<open>The claims\<close>

subsection \<open>Deleting\<close>

text \<open>
  Claim C9. For every Message, the deprecated alias \<^verbatim>\<open>delete_message()\<close> has the remote
  behaviour of \<^verbatim>\<open>delete()\<close>: the same outcome, the same Message afterwards, and one
  delete request to the bare message endpoint with the default headers and no body. In
  addition it gives a DeprecationWarning to the caller, before the request is sent.
\<close>

theorem delete_message_same_as_delete:
  "fst (delete_message tr w) = fst (delete tr w)
   \<and> self (snd (delete_message tr w)) = self (snd (delete tr w))
   \<and> trace (snd (delete tr w)) =
       trace w @ [Sent \<lparr>verb = ''delete'',
                        url = ''https://outlook.office.com/api/v2.0/me/messages/'' @ message_id (self w),
                        headers = [(''Authorization'', ''Bearer '' @ access_token (account (self w))),
                                   (''Content-Type'', ''application/json'')],
                        data = None\<rparr>]
   \<and> trace (snd (delete_message tr w)) =
       trace w @ [Warned ''DeprecationWarning''
                    ''delete_message() is deprecated and will be removed in v1.0. Use delete() instead.'',
                  Sent \<lparr>verb = ''delete'',
                        url = ''https://outlook.office.com/api/v2.0/me/messages/'' @ message_id (self w),
                        headers = [(''Authorization'', ''Bearer '' @ access_token (account (self w))),
                                   (''Content-Type'', ''application/json'')],
                        data = None\<rparr>]"
proof -
  have a: "fst (delete_message tr w) = fst (delete tr w)"
    by (simp add: delete_message_def delete_def make_api_call_def Let_def split: sum.split option.split)
  have b: "self (snd (delete_message tr w)) = self (snd (delete tr w))"
    by (simp add: delete_message_def delete_def make_api_call_delete_self)
  have c: "trace (snd (delete tr w)) =
       trace w @ [Sent \<lparr>verb = ''delete'',
                        url = ''https://outlook.office.com/api/v2.0/me/messages/'' @ message_id (self w),
                        headers = [(''Authorization'', ''Bearer '' @ access_token (account (self w))),
                                   (''Content-Type'', ''application/json'')],
                        data = None\<rparr>]" for w :: "(string, 'a, 'b) world"
    by (simp add: delete_def make_api_call_def Let_def split: sum.split option.split)
  have d: "trace (snd (delete_message tr w)) =
       trace w @ [Warned ''DeprecationWarning''
                    ''delete_message() is deprecated and will be removed in v1.0. Use delete() instead.'',
                  Sent \<lparr>verb = ''delete'',
                        url = ''https://outlook.office.com/api/v2.0/me/messages/'' @ message_id (self w),
                        headers = [(''Authorization'', ''Bearer '' @ access_token (account (self w))),
                                   (''Content-Type'', ''application/json'')],
                        data = None\<rparr>]"
    unfolding delete_message_def by (simp add: c)
  from a b c d show ?thesis by blast
qed

subsection \<open>The frame of the action methods\<close>

text \<open>
  Claim C10. For every Message and every action method other than the setter of
  \<^verbatim>\<open>is_read\<close> (forward, reply, reply_all, delete, delete_message, move_to and copy_to
  with their wrappers), the attributes of the Message (account, message_id, body,
  subject, sender_email, sender_name, to_recipients, is_read) are the same after the call
  as before it, whether the call returns or raises.
\<close>

theorem actions_leave_message_unchanged:
  "self (snd (forward_message jsonify tr to_rcpts comment w)) = self w
   \<and> self (snd (reply tr c w)) = self w
   \<and> self (snd (reply_all tr c w)) = self w
   \<and> self (snd (delete tr w)) = self w
   \<and> self (snd (delete_message tr w)) = self w
   \<and> self (snd (move_to tr d w)) = self w
   \<and> self (snd (move_to_inbox tr w)) = self w
   \<and> self (snd (move_to_deleted tr w)) = self w
   \<and> self (snd (move_to_drafts tr w)) = self w
   \<and> self (snd (copy_to tr d w)) = self w
   \<and> self (snd (copy_to_inbox tr w)) = self w
   \<and> self (snd (copy_to_deleted tr w)) = self w
   \<and> self (snd (copy_to_drafts tr w)) = self w"
proof -
  have fwd: "self (snd (forward_message jsonify tr to_rcpts comment w)) = self w"
    by (simp add: forward_message_def Let_def format_forward_endpoint make_api_call_post_self
        split: option.split sum.split)
  have rep: "self (snd (reply tr c w)) = self w"
    by (simp add: reply_def Let_def make_api_call_post_self)
  have repall: "self (snd (reply_all tr c w)) = self w"
    by (simp add: reply_all_def Let_def format_replyall_endpoint make_api_call_post_self)
  have del: "self (snd (delete tr w)) = self w"
    by (simp add: delete_def Let_def make_api_call_delete_self)
  have delm: "self (snd (delete_message tr w)) = self w"
    by (simp add: delete_message_def delete_def Let_def make_api_call_delete_self)
  have mv: "self (snd (private_move_to tr x w)) = self w" for x
    by (simp add: private_move_to_def Let_def make_api_call_post_self)
  have cp: "self (snd (private_copy_to tr x w)) = self w" for x
    by (simp add: private_copy_to_def Let_def format_copy_payload)
  have mvs: "self (snd (move_to tr d w)) = self w" "self (snd (move_to_inbox tr w)) = self w"
    "self (snd (move_to_deleted tr w)) = self w" "self (snd (move_to_drafts tr w)) = self w"
    by (simp_all only: move_to_def move_to_inbox_def move_to_deleted_def move_to_drafts_def mv)
  have cps: "self (snd (copy_to tr d w)) = self w" "self (snd (copy_to_inbox tr w)) = self w"
    "self (snd (copy_to_deleted tr w)) = self w" "self (snd (copy_to_drafts tr w)) = self w"
    by (simp_all only: copy_to_def copy_to_inbox_def copy_to_deleted_def copy_to_drafts_def cp)
  from fwd rep repall del delm mvs cps show ?thesis by blast
qed

subsection \<open>Copying\<close>

text \<open>The headers that \<^verbatim>\<open>_copy_to\<close> derives are the default headers of the gateway;
  merged over them by \<^verbatim>\<open>headers.update\<close> they leave them as they are.\<close>

lemma copy_headers_merge:
  "dict_update [(''Authorization'', a), (''Content-Type'', c)]
               [(''Authorization'', a), (''Content-Type'', c)]
   = [(''Authorization'', a), (''Content-Type'', c)]"
  by (simp add: dict_update_def)

text \<open>
  Claim C4 says that \<^verbatim>\<open>copy_to(d)\<close> and its three wrappers hand the gateway a post to
  the \<^verbatim>\<open>/copy\<close> endpoint with the body \<^verbatim>\<open>{"DestinationId": d}\<close>. On the code, for
  every Message, every destination and every transport, the payload template raises
  KeyError in \<^verbatim>\<open>str.format\<close>, so each of the four methods raises it and leaves the
  world as it was: no request reaches the gateway.
\<close>

theorem copy_to_never_sends:
  \<open>copy_to tr d w = (Inl (KeyError '' "DestinationId"''), w)
   \<and> copy_to_inbox tr w = (Inl (KeyError '' "DestinationId"''), w)
   \<and> copy_to_deleted tr w = (Inl (KeyError '' "DestinationId"''), w)
   \<and> copy_to_drafts tr w = (Inl (KeyError '' "DestinationId"''), w)\<close>
  by (simp add: copy_to_def copy_to_inbox_def copy_to_deleted_def copy_to_drafts_def
      private_copy_to_def Let_def format_copy_payload)

subsection \<open>The gateway\<close>

text \<open>
  Claim C8 says that a verb outside post, delete and patch makes the gateway raise an
  unimplemented-operation failure without a network call. On the code, for the verb
  \<^verbatim>\<open>get\<close>, the gateway sends nothing and the failure it raises is TypeError, the result
  of \<^verbatim>\<open>raise NotImplemented\<close>.
\<close>

theorem make_api_call_get_raises_TypeError:
  "make_api_call tr ''get'' ep x d w = (Inl TypeError, w)"
  by (rule make_api_call_unknown_verb) simp_all

text \<open>
  Claim C1 says that a response with status 401 makes the gateway raise AuthError, for
  every action and every response. On the code, \<^verbatim>\<open>delete()\<close> against a transport that
  answers 401 with a body that is not JSON raises the decoding error of \<^verbatim>\<open>r.json()\<close>,
  evaluated for the log line before the \<^verbatim>\<open>raise AuthError\<close>.
\<close>

theorem delete_unauthorized_without_json_body:
  "fst (delete (respond_with \<lparr>status_code = 401, json_body = None, content = []\<rparr>) sample_world)
   = Inl ValueError"
  by (simp add: delete_def make_api_call_def Let_def respond_with_def)

subsection \<open>The read state\<close>

lemma make_api_call_patch_trace:
  "trace (snd (make_api_call tr ''patch'' ep None d w)) =
   trace w @ [Sent \<lparr>verb = ''patch'', url = ep,
      headers = [(''Authorization'', ''Bearer '' @ access_token (account (self w))),
                 (''Content-Type'', ''application/json'')], data = d\<rparr>]"
  by (simp add: make_api_call_def Let_def split: sum.split option.split)

lemma make_api_call_patch_outcome:
  "fst (make_api_call tr ''patch'' ep None d w) =
   (case tr \<lparr>verb = ''patch'', url = ep,
      headers = [(''Authorization'', ''Bearer '' @ access_token (account (self w))),
                 (''Content-Type'', ''application/json'')], data = d\<rparr> of
      Inl e \<Rightarrow> Inl e
    | Inr r \<Rightarrow>
        if status_code r = 401 then
          (case json_body r of None \<Rightarrow> Inl ValueError | Some j \<Rightarrow> Inl AuthError)
        else if status_code r > 299 then
          (case json_body r of None \<Rightarrow> Inl ValueError | Some j \<Rightarrow> Inl MiscError)
        else Inr ())"
  by (simp add: make_api_call_def Let_def split: sum.split option.split)

lemma json_dumps_IsRead_text:
  \<open>json_dumps_IsRead b = (if b then ''{"IsRead": true}'' else ''{"IsRead": false}'')\<close>
  by (simp add: json_dumps_IsRead_def)

text \<open>
  Claim C2. For every Message and every boolean \<open>b\<close>, assigning \<open>b\<close> to \<^verbatim>\<open>is_read\<close>
  issues one patch to the bare message endpoint carrying \<^verbatim>\<open>{"IsRead": b}\<close>, and the
  assignment raises exactly what the gateway raises on the answer of the transport. When
  the transport answers with a status of at most 299, the assignment returns and the
  local \<open>is_read\<close> is \<open>b\<close> afterwards, the other attributes as before. When the transport
  answers with a status above 299, or fails, the assignment raises and the Message, and
  so its \<open>is_read\<close>, is as before; so it is whenever the assignment raises.
\<close>

theorem is_read_setter_updates_on_success_only:
  \<open>(let req = \<lparr>verb = ''patch'',
                url = ''https://outlook.office.com/api/v2.0/me/messages/'' @ message_id (self w),
                headers = [(''Authorization'', ''Bearer '' @ access_token (account (self w))),
                           (''Content-Type'', ''application/json'')],
                data = Some (if b then ''{"IsRead": true}'' else ''{"IsRead": false}'')\<rparr>
    in trace (snd (is_read_setter tr b w)) = trace w @ [Sent req]
       \<and> fst (is_read_setter tr b w) =
           (case tr req of
              Inl e \<Rightarrow> Inl e
            | Inr r \<Rightarrow>
                if status_code r = 401 then
                  (case json_body r of None \<Rightarrow> Inl ValueError | Some j \<Rightarrow> Inl AuthError)
                else if status_code r > 299 then
                  (case json_body r of None \<Rightarrow> Inl ValueError | Some j \<Rightarrow> Inl MiscError)
                else Inr ())
       \<and> (\<forall>r. tr req = Inr r \<and> status_code r \<le> 299 \<longrightarrow>
              fst (is_read_setter tr b w) = Inr ()
              \<and> self (snd (is_read_setter tr b w)) = (self w)\<lparr>is_read := b\<rparr>)
       \<and> (\<forall>r. tr req = Inr r \<and> status_code r > 299 \<longrightarrow>
              (\<exists>e. fst (is_read_setter tr b w) = Inl e)
              \<and> self (snd (is_read_setter tr b w)) = self w)
       \<and> (\<forall>e. tr req = Inl e \<longrightarrow>
              fst (is_read_setter tr b w) = Inl e
              \<and> self (snd (is_read_setter tr b w)) = self w)
       \<and> (\<forall>e. fst (is_read_setter tr b w) = Inl e \<longrightarrow>
              self (snd (is_read_setter tr b w)) = self w))\<close>
proof -
  define ep where "ep = ''https://outlook.office.com/api/v2.0/me/messages/'' @ message_id (self w)"
  define d where "d = Some (json_dumps_IsRead b)"
  define req where "req = \<lparr>verb = ''patch'', url = ep,
      headers = [(''Authorization'', ''Bearer '' @ access_token (account (self w))),
                 (''Content-Type'', ''application/json'')], data = d\<rparr>"
  define outcome :: "error + unit" where "outcome =
           (case tr req of
              Inl e \<Rightarrow> Inl e
            | Inr r \<Rightarrow>
                if status_code r = 401 then
                  (case json_body r of None \<Rightarrow> Inl ValueError | Some j \<Rightarrow> Inl AuthError)
                else if status_code r > 299 then
                  (case json_body r of None \<Rightarrow> Inl ValueError | Some j \<Rightarrow> Inl MiscError)
                else Inr ())"
  obtain res w' where mk: "make_api_call tr ''patch'' ep None d w = (res, w')"
    by (cases "make_api_call tr ''patch'' ep None d w") blast
  have tr': "trace w' = trace w @ [Sent req]"
    using make_api_call_patch_trace [of tr ep d w] by (simp add: mk req_def)
  have self': "self w' = self w"
    using make_api_call_patch_self [of tr ep None d w] by (simp add: mk)
  have res: "res = outcome"
    using make_api_call_patch_outcome [of tr ep d w] by (simp add: mk req_def outcome_def)
  have setter: "is_read_setter tr b w =
      (case res of Inl e \<Rightarrow> (Inl e, w')
       | Inr u \<Rightarrow> (Inr (), w'\<lparr>self := (self w')\<lparr>is_read := b\<rparr>\<rparr>))"
    unfolding is_read_setter_def format_message_endpoint sum.case ep_def [symmetric]
      d_def [symmetric] mk
    by (cases res) simp_all
  have c1: "trace (snd (is_read_setter tr b w)) = trace w @ [Sent req]"
    by (cases res) (simp_all add: setter tr')
  have c2: "fst (is_read_setter tr b w) = outcome"
    unfolding res [symmetric] by (cases res) (simp_all add: setter)
  have c3: "fst (is_read_setter tr b w) = Inr ()
            \<and> self (snd (is_read_setter tr b w)) = (self w)\<lparr>is_read := b\<rparr>"
    if "tr req = Inr r" "status_code r \<le> 299" for r
  proof -
    from that have "outcome = Inr ()" by (simp add: outcome_def)
    with res show ?thesis by (simp add: setter self')
  qed
  have c6: "self (snd (is_read_setter tr b w)) = self w" if "fst (is_read_setter tr b w) = Inl e" for e
    using that by (cases res) (simp_all add: setter self')
  have c4: "(\<exists>e. fst (is_read_setter tr b w) = Inl e) \<and> self (snd (is_read_setter tr b w)) = self w"
    if "tr req = Inr r" "status_code r > 299" for r
  proof -
    from that have "\<exists>e. outcome = Inl e"
      by (cases "json_body r") (simp_all add: outcome_def)
    with c2 obtain e where "fst (is_read_setter tr b w) = Inl e" by auto
    with c6 show ?thesis by blast
  qed
  have c5: "fst (is_read_setter tr b w) = Inl e \<and> self (snd (is_read_setter tr b w)) = self w"
    if "tr req = Inl e" for e
  proof -
    from that have "outcome = Inl e" by (simp add: outcome_def)
    with c2 have "fst (is_read_setter tr b w) = Inl e" by simp
    with c6 show ?thesis by blast
  qed
  have req_eq: \<open>req = \<lparr>verb = ''patch'',
                url = ''https://outlook.office.com/api/v2.0/me/messages/'' @ message_id (self w),
                headers = [(''Authorization'', ''Bearer '' @ access_token (account (self w))),
                           (''Content-Type'', ''application/json'')],
                data = Some (if b then ''{"IsRead": true}'' else ''{"IsRead": false}'')\<rparr>\<close>
    unfolding req_def ep_def d_def json_dumps_IsRead_text by (rule refl)
  from c1 c2 c3 c4 c5 c6 show ?thesis
    unfolding Let_def req_eq [symmetric] outcome_def by blast
qed

text \<open>The setter on the sample Message, whose \<open>is_read\<close> is false. Against a transport
  that answers 200 it sends the patch, returns and leaves \<open>is_read\<close> true. Against one that
  answers 401, with an empty body or with a JSON body, and against one that fails, it
  raises and \<open>is_read\<close> stays false.\<close>

theorem is_read_setter_witness:
  \<open>fst (is_read_setter (respond_with ok_response) True sample_world) = Inr ()
   \<and> is_read (self (snd (is_read_setter (respond_with ok_response) True sample_world))) = True
   \<and> trace (snd (is_read_setter (respond_with ok_response) True sample_world)) =
       [Sent \<lparr>verb = ''patch'',
              url = ''https://outlook.office.com/api/v2.0/me/messages/AAA'',
              headers = [(''Authorization'', ''Bearer token''),
                         (''Content-Type'', ''application/json'')],
              data = Some ''{"IsRead": true}''\<rparr>]
   \<and> fst (is_read_setter (respond_with unauthorized_response) True sample_world) = Inl ValueError
   \<and> is_read (self (snd (is_read_setter (respond_with unauthorized_response) True sample_world)))
       = False
   \<and> fst (is_read_setter (respond_with unauthorized_json_response) True sample_world)
       = Inl AuthError
   \<and> is_read (self (snd (is_read_setter (respond_with unauthorized_json_response) True
                           sample_world)))
       = False
   \<and> fst (is_read_setter (fail_with RequestException) True sample_world) = Inl RequestException
   \<and> is_read (self (snd (is_read_setter (fail_with RequestException) True sample_world)))
       = False\<close>
  using is_read_setter_updates_on_success_only
          [where tr = "respond_with ok_response" and b = True and w = sample_world]
        is_read_setter_updates_on_success_only
          [where tr = "respond_with unauthorized_response" and b = True and w = sample_world]
        is_read_setter_updates_on_success_only
          [where tr = "respond_with unauthorized_json_response" and b = True and w = sample_world]
        is_read_setter_updates_on_success_only
          [where tr = "fail_with RequestException" and b = True and w = sample_world]
  by (simp add: Let_def respond_with_def fail_with_def ok_response_def unauthorized_response_def
      unauthorized_json_response_def sample_world_def sample_account_def Message_def)

subsection \<open>The batch factory\<close>

lemma comprehension_all:
  "\<forall>x\<in>set xs. \<exists>m. f x = Inr m \<Longrightarrow>
   \<exists>ms. comprehension f xs = Inr ms \<and> length ms = length xs
        \<and> (\<forall>i<length xs. f (xs ! i) = Inr (ms ! i))"
proof (induction xs)
  case Nil
  then show ?case by simp
next
  case (Cons x xs)
  from Cons.prems obtain y where y: "f x = Inr y" by auto
  from Cons.prems have "\<forall>x\<in>set xs. \<exists>m. f x = Inr m" by simp
  with Cons.IH obtain ys where ys: "comprehension f xs = Inr ys" "length ys = length xs"
    "\<forall>i<length xs. f (xs ! i) = Inr (ys ! i)" by blast
  have "comprehension f (x # xs) = Inr (y # ys)"
    by (simp add: y ys(1) bind_err_def)
  moreover have "length (y # ys) = length (x # xs)" by (simp add: ys(2))
  moreover have "\<forall>i<length (x # xs). f ((x # xs) ! i) = Inr ((y # ys) ! i)"
  proof (intro allI impI)
    fix i assume "i < length (x # xs)"
    then show "f ((x # xs) ! i) = Inr ((y # ys) ! i)"
      by (cases i) (simp_all add: y ys(3))
  qed
  ultimately show ?case by blast
qed

text \<open>When the comprehension raises, the failure is that of the first entry on which the
  function raises.\<close>

lemma comprehension_raises:
  "comprehension f xs = Inl e \<Longrightarrow>
   \<exists>i<length xs. f (xs ! i) = Inl e \<and> (\<forall>j<i. \<exists>m. f (xs ! j) = Inr m)"
proof (induction xs)
  case Nil
  then show ?case by simp
next
  case (Cons x xs)
  show ?case
  proof (cases "f x")
    case (Inl e')
    with Cons.prems have "e' = e" by (simp add: bind_err_def)
    with Inl have "f ((x # xs) ! 0) = Inl e \<and> (\<forall>j<0. \<exists>m. f ((x # xs) ! j) = Inr m)" by simp
    then show ?thesis by (intro exI [of _ 0]) simp
  next
    case (Inr y)
    with Cons.prems have "comprehension f xs = Inl e"
      by (cases "comprehension f xs") (simp_all add: bind_err_def)
    with Cons.IH obtain i where i: "i < length xs" "f (xs ! i) = Inl e"
      "\<forall>j<i. \<exists>m. f (xs ! j) = Inr m" by blast
    have "\<forall>j<Suc i. \<exists>m. f ((x # xs) ! j) = Inr m"
    proof (intro allI impI)
      fix j assume "j < Suc i"
      then show "\<exists>m. f ((x # xs) ! j) = Inr m"
        using Inr i(3) by (cases j) simp_all
    qed
    with i(1,2) show ?thesis by (intro exI [of _ "Suc i"]) simp
  qed
qed

text \<open>
  Claim C7. For every batch object whose \<^verbatim>\<open>value\<close> member is an array of raw message
  objects, each of which the single-object factory turns into a Message, the batch
  factory returns a list of Messages as long as the array, whose i-th element is what the
  single-object factory returns on the i-th entry.
\<close>

theorem json_to_messages_in_order:
  assumes "map_of obj ''value'' = Some (JArr xs)"
    and "\<forall>x\<in>set xs. \<exists>m. json_to_message acct x = Inr m"
  shows "\<exists>ms. json_to_messages acct (JObj obj) = Inr ms \<and> length ms = length xs
             \<and> (\<forall>i<length xs. json_to_message acct (xs ! i) = Inr (ms ! i))"
proof -
  have "json_to_messages acct (JObj obj) = comprehension (json_to_message acct) xs"
    by (simp add: json_to_messages_def dict_item_def iterate_def bind_err_def assms(1))
  with comprehension_all [OF assms(2)] show ?thesis by simp
qed

text \<open>The sample batch of two raw messages gives two Messages, in the order of the
  array.\<close>

theorem json_to_messages_witness:
  "\<exists>ms. json_to_messages sample_account sample_batch = Inr ms \<and> length ms = 2
        \<and> message_id (ms ! 0) = JStr ''AAA'' \<and> message_id (ms ! 1) = JStr ''BBB''"
proof -
  let ?e1 = "JObj [(''Id'', JStr ''AAA''), (''IsRead'', JBool False)]"
  let ?e2 = "JObj [(''Id'', JStr ''BBB''), (''Subject'', JStr ''Hi''), (''IsRead'', JBool True)]"
  have m1: "json_to_message sample_account ?e1 =
      Inr (Message sample_account (JStr ''AAA'') (JStr []) (JStr []) (JStr []) (JStr []) (JArr []) (JBool False))"
    by (simp add: json_to_message_def dict_item_def dict_get_def bind_err_def)
  have m2: "json_to_message sample_account ?e2 =
      Inr (Message sample_account (JStr ''BBB'') (JStr []) (JStr ''Hi'') (JStr []) (JStr []) (JArr []) (JBool True))"
    by (simp add: json_to_message_def dict_item_def dict_get_def bind_err_def)
  have v: "map_of [(''value'', JArr [?e1, ?e2])] ''value'' = Some (JArr [?e1, ?e2])" by simp
  have ok: "\<forall>x\<in>set [?e1, ?e2]. \<exists>m. json_to_message sample_account x = Inr m"
    by (simp add: m1 m2)
  from json_to_messages_in_order [OF v ok]
  obtain ms where ms: "json_to_messages sample_account (JObj [(''value'', JArr [?e1, ?e2])]) = Inr ms"
      "length ms = length [?e1, ?e2]"
    and nth: "\<forall>i<length [?e1, ?e2]. json_to_message sample_account ([?e1, ?e2] ! i) = Inr (ms ! i)"
    by blast
  from nth [rule_format, of 0] m1
  have "ms ! 0 = Message sample_account (JStr ''AAA'') (JStr []) (JStr []) (JStr []) (JStr [])
                   (JArr []) (JBool False)"
    by simp
  then have "message_id (ms ! 0) = JStr ''AAA''"
    by (simp add: Message_def)
  moreover from nth [rule_format, of 1] m2
  have "ms ! 1 = Message sample_account (JStr ''BBB'') (JStr []) (JStr ''Hi'') (JStr []) (JStr [])
                   (JArr []) (JBool True)"
    by simp
  then have "message_id (ms ! 1) = JStr ''BBB''"
    by (simp add: Message_def)
  ultimately show ?thesis using ms by (simp add: sample_batch_def)
qed

subsection \<open>The single-object factory\<close>

lemma nested_objects_sender:
  assumes "nested_objects obj"
  shows "map_of obj ''Sender'' = None
         \<or> (\<exists>kvs. map_of obj ''Sender'' = Some (JObj kvs)
                \<and> (map_of kvs ''EmailAddress'' = None
                    \<or> (\<exists>k2. map_of kvs ''EmailAddress'' = Some (JObj k2))))"
proof (cases "map_of obj ''Sender''")
  case None
  then show ?thesis by simp
next
  case (Some s)
  with assms obtain kvs where s: "s = JObj kvs"
    by (cases s) (simp_all add: nested_objects_def)
  show ?thesis
  proof (cases "map_of kvs ''EmailAddress''")
    case None
    with Some s show ?thesis by simp
  next
    case e: (Some e)
    with assms Some s have "is_object e" by (simp add: nested_objects_def)
    then obtain k2 where "e = JObj k2" by (cases e) (simp_all add: is_object_def)
    with Some s e show ?thesis by simp
  qed
qed

lemma nested_objects_body:
  assumes "nested_objects obj"
  shows "map_of obj ''Body'' = None \<or> (\<exists>kb. map_of obj ''Body'' = Some (JObj kb))"
proof (cases "map_of obj ''Body''")
  case None
  then show ?thesis by simp
next
  case (Some b)
  with assms have "is_object b" by (simp add: nested_objects_def)
  then obtain kb where "b = JObj kb" by (cases b) (simp_all add: is_object_def)
  with Some show ?thesis by simp
qed


lemma dotted_last:
  "(case m of None \<Rightarrow> d | Some x \<Rightarrow> dotted d [] x) = (case m of None \<Rightarrow> d | Some v \<Rightarrow> v)"
  by (cases m) simp_all

lemma json_to_message_nested:
  assumes "map_of obj ''Id'' = Some uid" and "nested_objects obj"
  shows "json_to_message acct (JObj obj) =
     (case map_of obj ''IsRead'' of
        None \<Rightarrow> Inl (KeyError ''IsRead'')
      | Some rd \<Rightarrow>
          Inr \<lparr>account = acct, message_id = uid,
               body = dotted (JStr []) [''Body'', ''Content''] (JObj obj),
               subject = dotted (JStr []) [''Subject''] (JObj obj),
               sender_email = dotted (JStr []) [''Sender'', ''EmailAddress'', ''Address''] (JObj obj),
               sender_name = dotted (JStr []) [''Sender'', ''EmailAddress'', ''Name''] (JObj obj),
               to_recipients = dotted (JArr []) [''ToRecipients''] (JObj obj),
               is_read = rd\<rparr>)"
proof (cases "map_of obj ''IsRead''")
  case None
  with nested_objects_sender [OF assms(2)] nested_objects_body [OF assms(2)] assms(1)
  show ?thesis
    by (elim disjE exE conjE)
       (simp_all add: json_to_message_def dict_item_def dict_get_def bind_err_def)
next
  case (Some rd)
  with nested_objects_sender [OF assms(2)] nested_objects_body [OF assms(2)] assms(1)
  show ?thesis
    by (elim disjE exE conjE)
       (simp_all add: json_to_message_def dict_item_def dict_get_def bind_err_def Message_def
          dotted_last)
qed

text \<open>
  Claim C6, amended. For every raw message object: without the key \<^verbatim>\<open>Id\<close> the factory
  raises KeyError. With \<^verbatim>\<open>Id\<close>, and with \<^verbatim>\<open>Sender\<close>, \<^verbatim>\<open>Sender.EmailAddress\<close> and
  \<^verbatim>\<open>Body\<close> being JSON objects where they are present, the factory raises KeyError when
  \<^verbatim>\<open>IsRead\<close> is missing and otherwise returns a Message whose \<open>message_id\<close> is the value
  of \<^verbatim>\<open>Id\<close>, whose \<open>is_read\<close> is the value of \<^verbatim>\<open>IsRead\<close> and whose other attributes are
  the values at \<^verbatim>\<open>Subject\<close>, \<^verbatim>\<open>Body.Content\<close>, \<^verbatim>\<open>Sender.EmailAddress.Address\<close>,
  \<^verbatim>\<open>Sender.EmailAddress.Name\<close> and \<^verbatim>\<open>ToRecipients\<close>, each replaced by the empty string
  (the empty list for \<^verbatim>\<open>ToRecipients\<close>) where it is missing.
\<close>

theorem json_to_message_fields:
  "(map_of obj ''Id'' = None \<longrightarrow> json_to_message acct (JObj obj) = Inl (KeyError ''Id''))
   \<and> (map_of obj ''Id'' = Some uid \<and> nested_objects obj \<and> map_of obj ''IsRead'' = None \<longrightarrow>
        json_to_message acct (JObj obj) = Inl (KeyError ''IsRead''))
   \<and> (map_of obj ''Id'' = Some uid \<and> nested_objects obj \<and> map_of obj ''IsRead'' = Some rd \<longrightarrow>
        json_to_message acct (JObj obj) =
          Inr \<lparr>account = acct, message_id = uid,
               body = dotted (JStr []) [''Body'', ''Content''] (JObj obj),
               subject = dotted (JStr []) [''Subject''] (JObj obj),
               sender_email = dotted (JStr []) [''Sender'', ''EmailAddress'', ''Address''] (JObj obj),
               sender_name = dotted (JStr []) [''Sender'', ''EmailAddress'', ''Name''] (JObj obj),
               to_recipients = dotted (JArr []) [''ToRecipients''] (JObj obj),
               is_read = rd\<rparr>)"
proof -
  have no_id: "json_to_message acct (JObj obj) = Inl (KeyError ''Id'')" if "map_of obj ''Id'' = None"
    using that by (simp add: json_to_message_def dict_item_def bind_err_def)
  from no_id json_to_message_nested [of obj uid acct] show ?thesis
    by simp
qed

text \<open>Claim C6 as stated fails on an object that has \<^verbatim>\<open>Id\<close> and \<^verbatim>\<open>IsRead\<close> and whose
  \<^verbatim>\<open>Sender\<close> is \<^verbatim>\<open>null\<close>: \<^verbatim>\<open>api_json.get('Sender', {})\<close> returns \<^verbatim>\<open>None\<close>, the key
  being present, and \<^verbatim>\<open>None.get\<close> raises AttributeError.\<close>

theorem json_to_message_null_sender:
  "json_to_message sample_account
     (JObj [(''Id'', JStr ''AAA''), (''IsRead'', JBool False), (''Sender'', JNull)])
   = Inl AttributeError"
  by (simp add: json_to_message_def dict_item_def dict_get_def bind_err_def)

text \<open>The example of the specification, \<^verbatim>\<open>{"Id": "AAA", "IsRead": false}\<close>, and the two
  objects that lack one of the required keys.\<close>

theorem json_to_message_fields_witness:
  "json_to_message sample_account (JObj [(''Id'', JStr ''AAA''), (''IsRead'', JBool False)]) =
     Inr \<lparr>account = sample_account, message_id = JStr ''AAA'', body = JStr [], subject = JStr [],
          sender_email = JStr [], sender_name = JStr [], to_recipients = JArr [],
          is_read = JBool False\<rparr>
   \<and> json_to_message sample_account (JObj [(''IsRead'', JBool False)]) = Inl (KeyError ''Id'')
   \<and> json_to_message sample_account (JObj [(''Id'', JStr ''AAA'')]) = Inl (KeyError ''IsRead'')"
  using json_to_message_fields [where obj = "[(''Id'', JStr ''AAA''), (''IsRead'', JBool False)]"
          and uid = "JStr ''AAA''" and rd = "JBool False" and acct = sample_account]
        json_to_message_fields [where obj = "[(''IsRead'', JBool False)]"
          and uid = "JStr ''AAA''" and rd = "JBool False" and acct = sample_account]
        json_to_message_fields [where obj = "[(''Id'', JStr ''AAA'')]"
          and uid = "JStr ''AAA''" and rd = "JBool False" and acct = sample_account]
  by (simp add: nested_objects_def)

subsection \<open>Forwarding\<close>

text \<open>What \<^verbatim>\<open>forward_message\<close> does with any serialiser: on \<^verbatim>\<open>None\<close> it raises
  MiscError and sends nothing; on other recipients it raises what the serialiser raises,
  sending nothing, or hands the gateway one post to the \<^verbatim>\<open>/forward\<close> endpoint with the
  default headers and the serialised recipients in the body.\<close>

lemma forward_message_serialiser:
  \<open>forward_message jsonify tr None comment w = (Inl MiscError, w)
   \<and> (case jsonify rcpts ''to'' True of
         Inl e \<Rightarrow> forward_message jsonify tr (Some rcpts) comment w = (Inl e, w)
       | Inr js \<Rightarrow>
           trace (snd (forward_message jsonify tr (Some rcpts) comment w)) =
             trace w @
             [Sent \<lparr>verb = ''post'',
                    url = ''https://outlook.office.com/api/v2.0/me/messages/'' @ message_id (self w)
                          @ ''/forward'',
                    headers = [(''Authorization'', ''Bearer '' @ access_token (account (self w))),
                               (''Content-Type'', ''application/json'')],
                    data = Some (''{'' @ (case comment of
                                           None \<Rightarrow> []
                                         | Some c \<Rightarrow> ''"Comment" : "'' @ c @ ''",'')
                                 @ ''"ToRecipients" : ['' @ js @ '']}'')\<rparr>])\<close>
proof -
  have none: "forward_message jsonify tr None comment w = (Inl MiscError, w)"
    by (simp add: forward_message_def Let_def)
  have some: \<open>(case jsonify rcpts ''to'' True of
         Inl e \<Rightarrow> forward_message jsonify tr (Some rcpts) comment w = (Inl e, w)
       | Inr js \<Rightarrow>
           trace (snd (forward_message jsonify tr (Some rcpts) comment w)) =
             trace w @
             [Sent \<lparr>verb = ''post'',
                    url = ''https://outlook.office.com/api/v2.0/me/messages/'' @ message_id (self w)
                          @ ''/forward'',
                    headers = [(''Authorization'', ''Bearer '' @ access_token (account (self w))),
                               (''Content-Type'', ''application/json'')],
                    data = Some (''{'' @ (case comment of
                                           None \<Rightarrow> []
                                         | Some c \<Rightarrow> ''"Comment" : "'' @ c @ ''",'')
                                 @ ''"ToRecipients" : ['' @ js @ '']}'')\<rparr>])\<close>
  proof (cases "jsonify rcpts ''to'' True")
    case (Inl e)
    then show ?thesis by (simp add: forward_message_def Let_def)
  next
    case (Inr js)
    then show ?thesis
      by (cases comment)
         (simp_all add: forward_message_def Let_def format_forward_endpoint make_api_call_post_trace)
  qed
  from none some show ?thesis by (rule conjI)
qed

text \<open>The example of the docstring, two addresses in one string and a comment.\<close>

lemma forward_message_sample:
  \<open>forward_message jsonify_recipients (respond_with ok_response)
     (Some (AddressString ''john.doe@domain.com, betsy.donalds@domain.com'')) (Some ''Hey Joe'')
     sample_world =
     (Inr (),
      sample_world\<lparr>trace :=
        [Sent \<lparr>verb = ''post'',
               url = ''https://outlook.office.com/api/v2.0/me/messages/AAA/forward'',
               headers = [(''Authorization'', ''Bearer token''),
                          (''Content-Type'', ''application/json'')],
               data = Some ''{"Comment" : "Hey Joe","ToRecipients" : [{"EmailAddress": {"Address": "john.doe@domain.com"}},{"EmailAddress": {"Address": "betsy.donalds@domain.com"}}]}''\<rparr>]\<rparr>)\<close>
  by (simp add: forward_message_def Let_def format_forward_endpoint make_api_call_def
      jsonify_recipients_def empty_recipients_def addresses_def email_address_json_def strip_def
      is_space_def respond_with_def ok_response_def sample_world_def sample_account_def
      Message_def)


subsection \<open>Replying\<close>

text \<open>The request body of \<^verbatim>\<open>reply\<close> for a comment without double quote, backslash
  and control character is a JSON document: the object with the single member
  \<^verbatim>\<open>Comment\<close>, whose value is the comment.\<close>

lemma json_string_tail_plain:
  "plain c \<Longrightarrow> json_string_tail (c @ CHR 0x22 # rest) = Some (map of_char c, rest)"
  by (induction c) (simp_all add: plain_def prepend_def not_less)

lemma combine_surrogates_below:
  "\<forall>n\<in>set ns. n < 55296 \<Longrightarrow> combine_surrogates ns = ns"
  by (induction ns rule: combine_surrogates.induct) simp_all

lemma combine_surrogates_chars: "combine_surrogates (map of_char c) = map of_char c"
proof (rule combine_surrogates_below, rule ballI)
  fix n assume "n \<in> set (map (of_char :: char \<Rightarrow> nat) c)"
  then obtain ch where n: "n = of_char ch" by auto
  have "(of_char ch :: nat) < 256" by (rule nat_of_char_less_256)
  also have "(256 :: nat) < 55296" by simp
  finally show "n < 55296" by (simp only: n)
qed

lemma json_string_plain:
  "plain c \<Longrightarrow> json_string (CHR 0x22 # c @ CHR 0x22 # rest) = Some (map of_char c, rest)"
  by (simp add: json_string_def json_string_tail_plain combine_surrogates_chars)

lemma plain_Comment: "plain ''Comment''"
  by (simp add: plain_def)

lemma reply_payload_plain:
  assumes "plain c"
  shows \<open>json_loads_single ''Comment'' (''{ "Comment": "'' @ c @ ''"}'') = Some (map of_char c)\<close>
proof -
  have key: \<open>json_string (CHR 0x22 # ''Comment'' @ CHR 0x22 # '': "'' @ c @ ''"}'')
             = Some (map of_char ''Comment'', '': "'' @ c @ ''"}'')\<close>
    by (rule json_string_plain [OF plain_Comment])
  have val: \<open>json_string (CHR 0x22 # c @ CHR 0x22 # ''}'') = Some (map of_char c, ''}'')\<close>
    by (rule json_string_plain [OF assms])
  show ?thesis
    using key val
    by (simp add: json_loads_single_def expect_def skip_ws_def is_space_def)
qed

text \<open>
  Claim C5 says that the request body of \<^verbatim>\<open>reply(c)\<close> is the JSON encoding of
  \<^verbatim>\<open>{"Comment": c}\<close> for every comment. On the code, the comment is put between two
  double quotes as it is: for the HTML comment \<^verbatim>\<open><a href="x">link</a>\<close> the body that
  is posted is no JSON document.
\<close>

theorem reply_comment_with_quotes:
  \<open>trace (snd (reply (respond_with ok_response) ''<a href="x">link</a>'' sample_world)) =
     [Sent \<lparr>verb = ''post'',
            url = ''https://outlook.office.com/api/v2.0/me/messages/AAA/reply'',
            headers = [(''Authorization'', ''Bearer token''),
                       (''Content-Type'', ''application/json'')],
            data = Some ''{ "Comment": "<a href="x">link</a>"}''\<rparr>]
   \<and> json_loads_single ''Comment'' ''{ "Comment": "<a href="x">link</a>"}'' = None\<close>
proof -
  have sent: \<open>trace (snd (reply (respond_with ok_response) ''<a href="x">link</a>'' sample_world)) =
     [Sent \<lparr>verb = ''post'',
            url = ''https://outlook.office.com/api/v2.0/me/messages/AAA/reply'',
            headers = [(''Authorization'', ''Bearer token''),
                       (''Content-Type'', ''application/json'')],
            data = Some ''{ "Comment": "<a href="x">link</a>"}''\<rparr>]\<close>
    by (simp add: reply_def Let_def make_api_call_post_trace sample_world_def sample_account_def
        Message_def)
  have rejected: \<open>json_loads_single ''Comment'' ''{ "Comment": "<a href="x">link</a>"}'' = None\<close>
    by (simp add: json_loads_single_def expect_def skip_ws_def is_space_def json_string_def
        prepend_def)
  from sent rejected show ?thesis by (rule conjI)
qed

end
